theory Spec2Isabelle
  imports Complex_Main "HOL-Library.Multiset"
begin

section \<open>The dog-sighting service (DogService) of the Dog Spotter backend\<close>

text \<open>
  The development embeds \<^verbatim>\<open>src/services/dog.service.ts\<close>: the record type of a dog
  sighting, the filter objects the service compiles for the storage layer, the Haversine
  distance, and the operations \<^verbatim>\<open>create\<close>, \<^verbatim>\<open>findAll\<close>, \<^verbatim>\<open>search\<close>,
  \<^verbatim>\<open>getForMap\<close>, \<^verbatim>\<open>update\<close> and \<^verbatim>\<open>delete\<close>.

  Conventions. A JavaScript \<^verbatim>\<open>number\<close> holding a stored coordinate or a distance
  between finite points is a \<^typ>\<open>real\<close> (finite values, rounding idealised); the
  coordinates and the radius that \<^verbatim>\<open>search\<close> receives are JavaScript numbers that may
  also be \<^verbatim>\<open>NaN\<close> or infinite (the route passes on the result of
  \<^verbatim>\<open>parseFloat\<close>); a page number, a page size and a timestamp are \<^typ>\<open>int\<close>.
  An optional field \<^verbatim>\<open>x?: T\<close> is a \<^typ>\<open>'a option\<close>,
  \<^verbatim>\<open>undefined\<close> being \<^const>\<open>None\<close>. A thrown exception is the \<^const>\<open>Inl\<close> branch of a sum.
\<close>

subsection \<open>Records and inputs\<close>

text \<open>
  A row of the \<^verbatim>\<open>dogs\<close> table. The fields \<^verbatim>\<open>id\<close> and \<^verbatim>\<open>size\<close> are
  \<open>dogId\<close> and \<open>dogSize\<close> here. The last-update timestamp, which only the storage layer
  maintains, and the joined owner columns of \<^verbatim>\<open>include: { user: ... }\<close> are left out:
  the service never reads them.
\<close>

record dog =
  dogId :: string
  description :: string
  imageUrl :: "string option"
  latitude :: real
  longitude :: real
  breed :: "string option"
  color :: "string option"
  dogSize :: "string option"
  status :: string
  userId :: string
  createdAt :: int

record CreateDogInput =
  in_description :: string
  in_imageUrl :: "string option"
  in_latitude :: real
  in_longitude :: real
  in_breed :: "string option"
  in_color :: "string option"
  in_size :: "string option"
  in_status :: "string option"
  in_userId :: string

text \<open>The patch of \<^verbatim>\<open>update\<close>. It has no field for the owner.\<close>

record UpdateDogInput =
  up_description :: "string option"
  up_imageUrl :: "string option"
  up_latitude :: "real option"
  up_longitude :: "real option"
  up_breed :: "string option"
  up_color :: "string option"
  up_size :: "string option"
  up_status :: "string option"

text \<open>
  A JavaScript \<^verbatim>\<open>number\<close> as \<^verbatim>\<open>parseFloat\<close> can return it: a finite value,
  \<^verbatim>\<open>Infinity\<close>, \<^verbatim>\<open>-Infinity\<close> or \<^verbatim>\<open>NaN\<close>.
\<close>

datatype js_float = Num real | PlusInfinity | MinusInfinity | NotANumber

record SearchFilters =
  query :: "string option"
  f_status :: "string option"
  f_size :: "string option"
  f_breed :: "string option"
  f_latitude :: "js_float option"
  f_longitude :: "js_float option"
  radiusKm :: "js_float option"

record bounds =
  north :: real
  south :: real
  east :: real
  west :: real

text \<open>
  JavaScript truthiness of an optional string, as \<^verbatim>\<open>if (query)\<close> and
  \<^verbatim>\<open>!input.breed\<close> use it: an absent value and the empty string are falsy.
\<close>

definition truthy :: "string option \<Rightarrow> bool" where
  "truthy s = (case s of None \<Rightarrow> False | Some v \<Rightarrow> v \<noteq> [])"

text \<open>
  JavaScript truthiness of a number, as \<^verbatim>\<open>&& radiusKm\<close> uses it: zero and
  \<^verbatim>\<open>NaN\<close> are falsy, every other number is truthy.
\<close>

definition truthy_number :: "js_float \<Rightarrow> bool" where
  "truthy_number x =
     (case x of
        Num v \<Rightarrow> v \<noteq> 0
      | PlusInfinity \<Rightarrow> True
      | MinusInfinity \<Rightarrow> True
      | NotANumber \<Rightarrow> False)"

text \<open>The comparison \<^verbatim>\<open><=\<close> of two numbers: false whenever either side is \<^verbatim>\<open>NaN\<close>.\<close>

fun js_le :: "js_float \<Rightarrow> js_float \<Rightarrow> bool" where
  "js_le NotANumber y = False"
| "js_le x NotANumber = False"
| "js_le MinusInfinity y = True"
| "js_le x PlusInfinity = True"
| "js_le (Num a) (Num b) = (a \<le> b)"
| "js_le x y = False"

subsection \<open>The storage layer\<close>

text \<open>
  Modelled from the spec: the storage collaborator (the ORM client behind
  \<^verbatim>\<open>prisma.dog\<close>, not part of the repository's sources). Section 6 of the specification
  gives its contract: create, findFirst by predicate, findMany by predicate with ordering and
  pagination, update and delete by id, count; predicates are exact match, case-insensitive
  substring, numeric range, and OR/AND composition. The table is the list of its rows.
\<close>

text \<open>Case-insensitive substring test; letters are folded over ASCII.\<close>

definition toLowerChar :: "char \<Rightarrow> char" where
  "toLowerChar c =
     (let n = (of_char c :: nat) in if 65 \<le> n \<and> n \<le> 90 then char_of (n + 32) else c)"

definition toLowerCase :: "string \<Rightarrow> string" where
  "toLowerCase s = map toLowerChar s"

fun startsWith :: "string \<Rightarrow> string \<Rightarrow> bool" where
  "startsWith s [] = True"
| "startsWith [] (c # cs) = False"
| "startsWith (x # xs) (c # cs) = (x = c \<and> startsWith xs cs)"

fun str_includes :: "string \<Rightarrow> string \<Rightarrow> bool" where
  "str_includes [] sub = (sub = [])"
| "str_includes (x # xs) sub = (startsWith (x # xs) sub \<or> str_includes xs sub)"

text \<open>
  \<^verbatim>\<open>{ contains: q, mode: 'insensitive' }\<close> on a nullable text column: a null column
  matches nothing.
\<close>

definition contains_insensitive :: "string option \<Rightarrow> string \<Rightarrow> bool" where
  "contains_insensitive v q =
     (case v of None \<Rightarrow> False | Some s \<Rightarrow> str_includes (toLowerCase s) (toLowerCase q))"

datatype text_column = Description | Breed | Color

definition column :: "text_column \<Rightarrow> dog \<Rightarrow> string option" where
  "column c d =
     (case c of Description \<Rightarrow> Some (description d) | Breed \<Rightarrow> breed d | Color \<Rightarrow> color d)"

text \<open>
  The \<^verbatim>\<open>where\<close> object, with the keys the service sets. \<open>w_OR\<close> is a list of
  \<^verbatim>\<open>{ column: { contains, mode: 'insensitive' } }\<close> alternatives, \<open>w_status\<close> and \<open>w_size\<close>
  are equalities, \<open>w_breed\<close> is a case-insensitive \<^verbatim>\<open>contains\<close>, \<open>w_latitude\<close> and
  \<open>w_longitude\<close> are \<^verbatim>\<open>{ gte, lte }\<close> ranges, \<open>w_id\<close> and \<open>w_userId\<close> are equalities.
  The keys that are present are combined by AND.
\<close>

record DogWhereInput =
  w_OR :: "(text_column \<times> string) list option"
  w_status :: "string option"
  w_size :: "string option"
  w_breed :: "string option"
  w_latitude :: "(real \<times> real) option"
  w_longitude :: "(real \<times> real) option"
  w_id :: "string option"
  w_userId :: "string option"

definition empty_where :: DogWhereInput where
  "empty_where =
     \<lparr>w_OR = None, w_status = None, w_size = None, w_breed = None,
      w_latitude = None, w_longitude = None, w_id = None, w_userId = None\<rparr>"

definition matches :: "DogWhereInput \<Rightarrow> dog \<Rightarrow> bool" where
  "matches w d =
     ((case w_OR w of None \<Rightarrow> True
         | Some alts \<Rightarrow> list_ex (\<lambda>(c, q). contains_insensitive (column c d) q) alts) \<and>
      (case w_status w of None \<Rightarrow> True | Some s \<Rightarrow> status d = s) \<and>
      (case w_size w of None \<Rightarrow> True | Some s \<Rightarrow> dogSize d = Some s) \<and>
      (case w_breed w of None \<Rightarrow> True | Some b \<Rightarrow> contains_insensitive (breed d) b) \<and>
      (case w_latitude w of None \<Rightarrow> True
         | Some (gte, lte) \<Rightarrow> gte \<le> latitude d \<and> latitude d \<le> lte) \<and>
      (case w_longitude w of None \<Rightarrow> True
         | Some (gte, lte) \<Rightarrow> gte \<le> longitude d \<and> longitude d \<le> lte) \<and>
      (case w_id w of None \<Rightarrow> True | Some i \<Rightarrow> dogId d = i) \<and>
      (case w_userId w of None \<Rightarrow> True | Some u \<Rightarrow> userId d = u))"

text \<open>\<^verbatim>\<open>orderBy: { createdAt: 'desc' }\<close>: newest first (a stable sort).\<close>

definition orderBy_createdAt_desc :: "dog list \<Rightarrow> dog list" where
  "orderBy_createdAt_desc ds = sort_key (\<lambda>d. - createdAt d) ds"

text \<open>
  \<^verbatim>\<open>findMany({ where, orderBy: { createdAt: 'desc' } })\<close>: every query of the service
  uses this ordering.
\<close>

definition prisma_dog_findMany :: "DogWhereInput \<Rightarrow> dog list \<Rightarrow> dog list" where
  "prisma_dog_findMany w table = orderBy_createdAt_desc (filter (matches w) table)"

text \<open>
  The \<^verbatim>\<open>skip\<close> and \<^verbatim>\<open>take\<close> arguments of \<^verbatim>\<open>findMany\<close>. What the collaborator
  does with a negative \<^verbatim>\<open>skip\<close> or \<^verbatim>\<open>take\<close> is fixed neither by the sources nor by
  the specification; the result is \<^const>\<open>None\<close> there.
\<close>

definition skip_take :: "int \<Rightarrow> int \<Rightarrow> dog list \<Rightarrow> dog list option" where
  "skip_take skip take_n rows =
     (if skip < 0 \<or> take_n < 0 then None
      else Some (take (nat take_n) (drop (nat skip) rows)))"

definition prisma_dog_count :: "dog list \<Rightarrow> nat" where
  "prisma_dog_count table = length table"

definition prisma_dog_findFirst :: "DogWhereInput \<Rightarrow> dog list \<Rightarrow> dog option" where
  "prisma_dog_findFirst w table = List.find (matches w) table"

subsection \<open>Haversine distance\<close>

text \<open>
  \<^verbatim>\<open>Math.atan2(y, x)\<close> over the reals: the angle of the point \<open>(x, y)\<close> in \<open>(-\<pi>, \<pi>]\<close>.
\<close>

definition Math_atan2 :: "real \<Rightarrow> real \<Rightarrow> real" where
  "Math_atan2 y x =
     (if 0 < x then arctan (y / x)
      else if x < 0 \<and> 0 \<le> y then arctan (y / x) + pi
      else if x < 0 then arctan (y / x) - pi
      else if 0 < y then pi / 2
      else if y < 0 then - (pi / 2)
      else 0)"

definition toRad :: "real \<Rightarrow> real" where
  "toRad deg = deg * (pi / 180)"

definition calculateDistance :: "real \<Rightarrow> real \<Rightarrow> real \<Rightarrow> real \<Rightarrow> real" where
  "calculateDistance lat1 lon1 lat2 lon2 =
     (let R = 6371;
          dLat = toRad (lat2 - lat1);
          dLon = toRad (lon2 - lon1);
          a = sin (dLat / 2) * sin (dLat / 2) +
              cos (toRad lat1) * cos (toRad lat2) * sin (dLon / 2) * sin (dLon / 2);
          c = 2 * Math_atan2 (sqrt a) (sqrt (1 - a))
      in R * c)"

text \<open>
  \<^verbatim>\<open>calculateDistance\<close> called with the coordinates of a search filter. When one of
  them is infinite or \<^verbatim>\<open>NaN\<close>, the difference \<^verbatim>\<open>lat2 - lat1\<close> or
  \<^verbatim>\<open>lon2 - lon1\<close> is infinite or \<^verbatim>\<open>NaN\<close>, its sine is \<^verbatim>\<open>NaN\<close>, and
  \<^verbatim>\<open>NaN\<close> runs through the sum, the square roots, \<^verbatim>\<open>atan2\<close> and the products
  to the result.
\<close>

definition calculateDistance_js :: "js_float \<Rightarrow> js_float \<Rightarrow> real \<Rightarrow> real \<Rightarrow> js_float" where
  "calculateDistance_js lat1 lon1 lat2 lon2 =
     (case (lat1, lon1) of
        (Num la, Num lo) \<Rightarrow> Num (calculateDistance la lo lat2 lon2)
      | _ \<Rightarrow> NotANumber)"

subsection \<open>Read operations of the service\<close>

text \<open>
  The result of \<^verbatim>\<open>Math.ceil(total / limit)\<close> for a row count \<open>total\<close>: division by
  zero gives \<^verbatim>\<open>Infinity\<close>, or \<^verbatim>\<open>NaN\<close> for \<^verbatim>\<open>0 / 0\<close>.
\<close>

datatype js_number = Finite int | Infinity | NaN

definition Math_ceil_div :: "nat \<Rightarrow> int \<Rightarrow> js_number" where
  "Math_ceil_div total_n limit_n =
     (if limit_n = 0 then (if total_n = 0 then NaN else Infinity)
      else Finite \<lceil>real total_n / real_of_int limit_n\<rceil>)"

record pagination =
  p_page :: int
  p_limit :: int
  p_total :: nat
  p_totalPages :: js_number

record findAll_result =
  r_dogs :: "dog list"
  r_pagination :: pagination

definition findAll :: "int \<Rightarrow> int \<Rightarrow> dog list \<Rightarrow> findAll_result option" where
  "findAll page_n limit_n table =
     (let skip = (page_n - 1) * limit_n;
          total_n = prisma_dog_count table
      in case skip_take skip limit_n (prisma_dog_findMany empty_where table) of
           None \<Rightarrow> None
         | Some ds \<Rightarrow>
             Some \<lparr>r_dogs = ds,
                   r_pagination =
                     \<lparr>p_page = page_n, p_limit = limit_n, p_total = total_n,
                      p_totalPages = Math_ceil_div total_n limit_n\<rparr>\<rparr>)"

text \<open>The \<^verbatim>\<open>where\<close> object that \<^verbatim>\<open>search\<close> builds, one \<^verbatim>\<open>if\<close> after the other.\<close>

definition search_where :: "SearchFilters \<Rightarrow> DogWhereInput" where
  "search_where filters =
     (let w = empty_where;
          w = (case query filters of
                 None \<Rightarrow> w
               | Some q \<Rightarrow>
                   if q \<noteq> [] then w\<lparr>w_OR := Some [(Description, q), (Breed, q), (Color, q)]\<rparr>
                   else w);
          w = (case f_status filters of
                 None \<Rightarrow> w
               | Some s \<Rightarrow> if s \<noteq> [] then w\<lparr>w_status := Some s\<rparr> else w);
          w = (case f_size filters of
                 None \<Rightarrow> w
               | Some s \<Rightarrow> if s \<noteq> [] then w\<lparr>w_size := Some s\<rparr> else w);
          w = (case f_breed filters of
                 None \<Rightarrow> w
               | Some b \<Rightarrow> if b \<noteq> [] then w\<lparr>w_breed := Some b\<rparr> else w)
      in w)"

text \<open>
  The radius filter runs when \<^verbatim>\<open>latitude !== undefined && longitude !== undefined &&
  radiusKm\<close> holds: the coordinates are tested for presence, the radius for truthiness
  (an absent radius is \<^verbatim>\<open>undefined\<close>, which is falsy). A row stays when
  \<^verbatim>\<open>distance <= radiusKm\<close>.
\<close>

definition search :: "SearchFilters \<Rightarrow> dog list \<Rightarrow> dog list" where
  "search filters table =
     (let ds = prisma_dog_findMany (search_where filters) table
      in case (f_latitude filters, f_longitude filters, radiusKm filters) of
           (Some lat, Some lon, Some r) \<Rightarrow>
             if truthy_number r
             then filter
                    (\<lambda>d. js_le (calculateDistance_js lat lon (latitude d) (longitude d)) r) ds
             else ds
         | _ \<Rightarrow> ds)"

text \<open>The projection \<^verbatim>\<open>select\<close> of \<^verbatim>\<open>getForMap\<close>.\<close>

record marker =
  m_id :: string
  m_latitude :: real
  m_longitude :: real
  m_imageUrl :: "string option"
  m_description :: string
  m_status :: string
  m_breed :: "string option"
  m_createdAt :: int

definition select_marker :: "dog \<Rightarrow> marker" where
  "select_marker d =
     \<lparr>m_id = dogId d, m_latitude = latitude d, m_longitude = longitude d,
      m_imageUrl = imageUrl d, m_description = description d, m_status = status d,
      m_breed = breed d, m_createdAt = createdAt d\<rparr>"

definition map_where :: "bounds option \<Rightarrow> DogWhereInput" where
  "map_where bs =
     (case bs of
        None \<Rightarrow> empty_where
      | Some b \<Rightarrow>
          empty_where\<lparr>w_latitude := Some (south b, north b),
                      w_longitude := Some (west b, east b)\<rparr>)"

definition getForMap :: "bounds option \<Rightarrow> dog list \<Rightarrow> marker list" where
  "getForMap bs table = map select_marker (take 100 (prisma_dog_findMany (map_where bs) table))"

subsection \<open>Write operations of the service\<close>

text \<open>
  The world of a write operation: the rows of the table and the trace of the calls made to
  the mutating operations of the storage layer and to the breed-prediction service.
\<close>

datatype call = DogCreate | DogUpdate string | DogDelete string | PredictBreed string string

record world =
  stored :: "dog list"
  calls :: "call list"

text \<open>
  \<open>NotFoundOrNotPermitted\<close> is the error raised by the ownership check of \<^verbatim>\<open>update\<close>
  and \<^verbatim>\<open>delete\<close>; \<open>StorageFailure\<close> is an error of the storage layer; \<open>PredictionFailure\<close>
  is an error of the breed-prediction service.
\<close>

datatype error = NotFoundOrNotPermitted | StorageFailure | PredictionFailure

text \<open>
  Modelled from the spec: \<^verbatim>\<open>prisma.dog.create\<close>. The identifier and the creation time are
  assigned by the database (\<^verbatim>\<open>gen_random_uuid()\<close>, \<^verbatim>\<open>CURRENT_TIMESTAMP\<close>); here they
  are the arguments \<open>newId\<close> and \<open>now\<close>. The primary key rejects an identifier already in the
  table; the column \<^verbatim>\<open>status\<close> defaults to \<^verbatim>\<open>'encontrado'\<close>.
\<close>

definition prisma_dog_create ::
  "string \<Rightarrow> int \<Rightarrow> CreateDogInput \<Rightarrow> world \<Rightarrow> (error + dog) \<times> world" where
  "prisma_dog_create newId now data w =
     (let w1 = w\<lparr>calls := calls w @ [DogCreate]\<rparr>
      in if newId \<in> set (map dogId (stored w)) then (Inl StorageFailure, w1)
         else
           (let d = \<lparr>dogId = newId, description = in_description data,
                     imageUrl = in_imageUrl data, latitude = in_latitude data,
                     longitude = in_longitude data, breed = in_breed data,
                     color = in_color data, dogSize = in_size data,
                     status = (case in_status data of None \<Rightarrow> ''encontrado'' | Some s \<Rightarrow> s),
                     userId = in_userId data, createdAt = now\<rparr>
            in (Inr d, w1\<lparr>stored := stored w1 @ [d]\<rparr>)))"

text \<open>A patch sets the fields it carries and keeps the others.\<close>

definition apply_patch :: "UpdateDogInput \<Rightarrow> dog \<Rightarrow> dog" where
  "apply_patch p d =
     d\<lparr>description := (case up_description p of None \<Rightarrow> description d | Some v \<Rightarrow> v),
       imageUrl := (case up_imageUrl p of None \<Rightarrow> imageUrl d | Some v \<Rightarrow> Some v),
       latitude := (case up_latitude p of None \<Rightarrow> latitude d | Some v \<Rightarrow> v),
       longitude := (case up_longitude p of None \<Rightarrow> longitude d | Some v \<Rightarrow> v),
       breed := (case up_breed p of None \<Rightarrow> breed d | Some v \<Rightarrow> Some v),
       color := (case up_color p of None \<Rightarrow> color d | Some v \<Rightarrow> Some v),
       dogSize := (case up_size p of None \<Rightarrow> dogSize d | Some v \<Rightarrow> Some v),
       status := (case up_status p of None \<Rightarrow> status d | Some v \<Rightarrow> v)\<rparr>"

fun update_row :: "string \<Rightarrow> (dog \<Rightarrow> dog) \<Rightarrow> dog list \<Rightarrow> dog list" where
  "update_row i f [] = []"
| "update_row i f (d # ds) = (if dogId d = i then f d # ds else d # update_row i f ds)"

fun delete_row :: "string \<Rightarrow> dog list \<Rightarrow> dog list" where
  "delete_row i [] = []"
| "delete_row i (d # ds) = (if dogId d = i then ds else d # delete_row i ds)"

definition prisma_dog_findUnique :: "string \<Rightarrow> dog list \<Rightarrow> dog option" where
  "prisma_dog_findUnique i table = List.find (\<lambda>d. dogId d = i) table"

text \<open>
  Modelled from the spec: \<^verbatim>\<open>prisma.dog.update({ where: { id }, data })\<close> and
  \<^verbatim>\<open>prisma.dog.delete({ where: { id } })\<close>. Both fail when no row has the identifier.
\<close>

definition prisma_dog_update ::
  "string \<Rightarrow> UpdateDogInput \<Rightarrow> world \<Rightarrow> (error + dog) \<times> world" where
  "prisma_dog_update i data w =
     (let w1 = w\<lparr>calls := calls w @ [DogUpdate i]\<rparr>
      in case prisma_dog_findUnique i (stored w) of
           None \<Rightarrow> (Inl StorageFailure, w1)
         | Some d \<Rightarrow>
             (Inr (apply_patch data d),
              w1\<lparr>stored := update_row i (apply_patch data) (stored w1)\<rparr>))"

definition prisma_dog_delete :: "string \<Rightarrow> world \<Rightarrow> (error + bool) \<times> world" where
  "prisma_dog_delete i w =
     (let w1 = w\<lparr>calls := calls w @ [DogDelete i]\<rparr>
      in case prisma_dog_findUnique i (stored w) of
           None \<Rightarrow> (Inl StorageFailure, w1)
         | Some d \<Rightarrow> (Inr True, w1\<lparr>stored := delete_row i (stored w1)\<rparr>))"

text \<open>
  The breed-prediction service \<^verbatim>\<open>mlService.predictBreed(imageUrl, dogId)\<close> is a parameter
  of \<^verbatim>\<open>create\<close>: it returns a prediction or fails.
\<close>

record prediction =
  pred_breed :: "string option"
  pred_confidence :: "real option"

type_synonym ml_service = "string \<Rightarrow> string \<Rightarrow> error + prediction"

definition breed_patch :: "string \<Rightarrow> UpdateDogInput" where
  "breed_patch b =
     \<lparr>up_description = None, up_imageUrl = None, up_latitude = None, up_longitude = None,
      up_breed = Some b, up_color = None, up_size = None, up_status = None\<rparr>"

text \<open>
  \<^verbatim>\<open>create\<close>. The row is created first, from the \<^verbatim>\<open>data\<close> object \<open>create_data\<close>, which
  copies the input with \<^verbatim>\<open>status: input.status || 'encontrado'\<close>.
  The prediction runs under \<^verbatim>\<open>if (input.imageUrl && !input.breed)\<close>, inside a
  \<^verbatim>\<open>try\<close> whose \<^verbatim>\<open>catch\<close> swallows every failure of the prediction and of the
  update that follows it.
\<close>

definition create_data :: "CreateDogInput \<Rightarrow> CreateDogInput" where
  "create_data input =
     input\<lparr>in_status :=
             Some (case in_status input of
                     None \<Rightarrow> ''encontrado''
                   | Some s \<Rightarrow> if s \<noteq> [] then s else ''encontrado'')\<rparr>"

definition create ::
  "ml_service \<Rightarrow> string \<Rightarrow> int \<Rightarrow> CreateDogInput \<Rightarrow> world \<Rightarrow> (error + dog) \<times> world" where
  "create ml newId now input w =
     (case prisma_dog_create newId now (create_data input) w of
        (Inl e, w1) \<Rightarrow> (Inl e, w1)
      | (Inr dog0, w1) \<Rightarrow>
          (case in_imageUrl input of
             None \<Rightarrow> (Inr dog0, w1)
           | Some url \<Rightarrow>
               if url \<noteq> [] \<and> \<not> truthy (in_breed input) then
                 (let w2 = w1\<lparr>calls := calls w1 @ [PredictBreed url (dogId dog0)]\<rparr>
                  in case ml url (dogId dog0) of
                       Inl err \<Rightarrow> (Inr dog0, w2)
                     | Inr p \<Rightarrow>
                         (case pred_breed p of
                            None \<Rightarrow> (Inr dog0, w2)
                          | Some b \<Rightarrow>
                              if b \<noteq> [] then
                                (case prisma_dog_update (dogId dog0) (breed_patch b) w2 of
                                   (Inl err, w3) \<Rightarrow> (Inr dog0, w3)
                                 | (Inr dog1, w3) \<Rightarrow> (Inr dog1, w3))
                              else (Inr dog0, w2)))
               else (Inr dog0, w1)))"

text \<open>
  \<^verbatim>\<open>update\<close> and \<^verbatim>\<open>delete\<close>: the ownership check is
  \<^verbatim>\<open>findFirst({ where: { id, userId } })\<close>; without a match the operation throws before
  it reaches the storage layer's mutation.
\<close>

definition owner_where :: "string \<Rightarrow> string \<Rightarrow> DogWhereInput" where
  "owner_where i u = empty_where\<lparr>w_id := Some i, w_userId := Some u\<rparr>"

definition update ::
  "string \<Rightarrow> string \<Rightarrow> UpdateDogInput \<Rightarrow> world \<Rightarrow> (error + dog) \<times> world" where
  "update i u input w =
     (case prisma_dog_findFirst (owner_where i u) (stored w) of
        None \<Rightarrow> (Inl NotFoundOrNotPermitted, w)
      | Some existingDog \<Rightarrow> prisma_dog_update i input w)"

definition delete :: "string \<Rightarrow> string \<Rightarrow> world \<Rightarrow> (error + bool) \<times> world" where
  "delete i u w =
     (case prisma_dog_findFirst (owner_where i u) (stored w) of
        None \<Rightarrow> (Inl NotFoundOrNotPermitted, w)
      | Some existingDog \<Rightarrow> prisma_dog_delete i w)"

subsection \<open>Notions used by the properties, and sample data\<close>

text \<open>A list of rows is newest-first when creation times never increase along it.\<close>

definition newest_first :: "dog list \<Rightarrow> bool" where
  "newest_first ds = sorted_wrt (\<lambda>a b. createdAt b \<le> createdAt a) ds"

definition no_filters :: SearchFilters where
  "no_filters =
     \<lparr>query = None, f_status = None, f_size = None, f_breed = None,
      f_latitude = None, f_longitude = None, radiusKm = None\<rparr>"

definition geo_filters :: "real \<Rightarrow> real \<Rightarrow> js_float \<Rightarrow> SearchFilters" where
  "geo_filters lat lon r =
     no_filters\<lparr>f_latitude := Some (Num lat), f_longitude := Some (Num lon),
                radiusKm := Some r\<rparr>"

definition dog_at :: "string \<Rightarrow> real \<Rightarrow> real \<Rightarrow> int \<Rightarrow> dog" where
  "dog_at i lat lon t =
     \<lparr>dogId = i, description = ''Cachorro encontrado'', imageUrl = None,
      latitude = lat, longitude = lon, breed = None, color = None, dogSize = None,
      status = ''encontrado'', userId = ''u1'', createdAt = t\<rparr>"

text \<open>The rectangle test that the map query asks of the storage layer.\<close>

definition in_bounds :: "bounds option \<Rightarrow> dog \<Rightarrow> bool" where
  "in_bounds bs d =
     (case bs of
        None \<Rightarrow> True
      | Some b \<Rightarrow> south b \<le> latitude d \<and> latitude d \<le> north b \<and>
                 west b \<le> longitude d \<and> longitude d \<le> east b)"

text \<open>A prediction failed when the service threw or returned no usable breed.\<close>

definition prediction_failed :: "error + prediction \<Rightarrow> bool" where
  "prediction_failed res = (case res of Inl e \<Rightarrow> True | Inr p \<Rightarrow> \<not> truthy (pred_breed p))"

definition box10 :: bounds where
  "box10 = \<lparr>north = 10, south = - 10, east = 10, west = - 10\<rparr>"

definition poodle :: dog where
  "poodle = (dog_at ''p'' 0 0 1)\<lparr>description := ''Small dog'', breed := Some ''Poodle''\<rparr>"

definition labrador :: dog where
  "labrador = (dog_at ''l'' 0 0 2)\<lparr>description := ''Friendly dog'', breed := Some ''LABRADOR''\<rparr>"

definition query_and_breed :: SearchFilters where
  "query_and_breed = no_filters\<lparr>query := Some ''dog'', f_breed := Some ''lab''\<rparr>"

definition world0 :: world where
  "world0 = \<lparr>stored = [dog_at ''a'' 0 0 1], calls = []\<rparr>"

definition empty_world :: world where
  "empty_world = \<lparr>stored = [], calls = []\<rparr>"

definition photo_input :: "string option \<Rightarrow> CreateDogInput" where
  "photo_input b =
     \<lparr>in_description = ''Cachorro encontrado'',
      in_imageUrl = Some ''https://example.com/dog.jpg'',
      in_latitude = 0, in_longitude = 0, in_breed = b, in_color = None, in_size = None,
      in_status = None, in_userId = ''u1''\<rparr>"

definition created_dog :: "string \<Rightarrow> int \<Rightarrow> CreateDogInput \<Rightarrow> dog" where
  "created_dog i t input =
     \<lparr>dogId = i, description = in_description input, imageUrl = in_imageUrl input,
      latitude = in_latitude input, longitude = in_longitude input, breed = in_breed input,
      color = in_color input, dogSize = in_size input, status = ''encontrado'',
      userId = in_userId input, createdAt = t\<rparr>"

definition ml_unavailable :: ml_service where
  "ml_unavailable url i = Inl PredictionFailure"

definition ml_no_breed :: ml_service where
  "ml_no_breed url i = Inr \<lparr>pred_breed = Some [], pred_confidence = None\<rparr>"

definition ml_labrador :: ml_service where
  "ml_labrador url i =
     Inr \<lparr>pred_breed = Some ''Labrador'', pred_confidence = Some (95 / 100)\<rparr>"

section \<open>Properties\<close>

subsection \<open>Distance\<close>

text \<open>
  C6. For all \<open>lat\<close> and \<open>lon\<close>, the Haversine distance from a point to itself is exactly
  zero: \<open>calculateDistance lat lon lat lon = 0\<close>.
\<close>

theorem calculateDistance_same_point:
  "calculateDistance lat lon lat lon = 0"
  by (simp add: calculateDistance_def toRad_def Math_atan2_def)

theorem calculateDistance_same_point_witness:
  "calculateDistance (- 23.5505) (- 46.6333) (- 23.5505) (- 46.6333) = 0"
  by (rule calculateDistance_same_point)

text \<open>
  The haversine term \<open>a\<close> lies in \<open>[0, 1]\<close> for all real coordinates, also outside the
  geographic ranges, so both square roots are taken of non-negative numbers and the
  distance lies between 0 and half the circumference.
\<close>

lemma sin_half_sq: "sin (x / 2) * sin (x / 2) = (1 - cos x) / (2::real)"
proof -
  have "cos x = 1 - 2 * (sin (x / 2))\<^sup>2"
    using cos_double_sin [of "x / 2"] by simp
  then show ?thesis
    by (simp add: power2_eq_square)
qed

lemma half_range:
  fixes c :: real
  assumes "- 1 \<le> c" and "c \<le> 1"
  shows "0 \<le> (1 - c) / 2 \<and> (1 - c) / 2 \<le> 1 \<and> 0 \<le> (1 + c) / 2 \<and> (1 + c) / 2 \<le> 1"
  using assms by simp

lemma convex_eq:
  fixes s :: real
  shows "A0 + (A1 - A0) * s = (1 - s) * A0 + s * A1"
  by (simp add: algebra_simps)

lemma convex_range:
  fixes s :: real
  assumes "0 \<le> s" and "s \<le> 1" and "0 \<le> A0" and "A0 \<le> 1" and "0 \<le> A1" and "A1 \<le> 1"
  shows "0 \<le> (1 - s) * A0 + s * A1 \<and> (1 - s) * A0 + s * A1 \<le> 1"
proof -
  have "0 \<le> (1 - s) * A0" and "0 \<le> s * A1"
    using assms by simp_all
  moreover have "(1 - s) * A0 \<le> (1 - s) * 1"
    using assms by (intro mult_left_mono) simp_all
  moreover have "s * A1 \<le> s * 1"
    using assms by (intro mult_left_mono) simp_all
  ultimately show ?thesis
    by simp
qed

lemma haversine_term_range:
  fixes p1 p2 dl :: real
  defines "a \<equiv> sin ((p2 - p1) / 2) * sin ((p2 - p1) / 2) +
                 cos p1 * cos p2 * sin (dl / 2) * sin (dl / 2)"
  shows "0 \<le> a \<and> a \<le> 1"
proof -
  let ?s = "sin (dl / 2) * sin (dl / 2)"
  let ?A0 = "(1 - cos (p2 - p1)) / 2"
  let ?A1 = "(1 + cos (p1 + p2)) / 2"
  have s0: "0 \<le> ?s" by simp
  have "(sin (dl / 2))\<^sup>2 \<le> 1"
    by (simp add: abs_square_le_1)
  then have s1: "?s \<le> 1"
    by (simp add: power2_eq_square)
  have A0: "0 \<le> ?A0" "?A0 \<le> 1"
    using half_range [OF cos_ge_minus_one cos_le_one, of "p2 - p1"] by blast+
  have A1: "0 \<le> ?A1" "?A1 \<le> 1"
    using half_range [OF cos_ge_minus_one cos_le_one, of "p1 + p2"] by blast+
  have k: "cos p1 * cos p2 = ?A1 - ?A0"
    by (simp add: cos_add cos_diff field_simps)
  have "a = ?A0 + (cos p1 * cos p2) * ?s"
    unfolding a_def by (simp only: sin_half_sq [of "p2 - p1"] mult.assoc)
  also have "\<dots> = ?A0 + (?A1 - ?A0) * ?s"
    by (simp only: k)
  also have "\<dots> = (1 - ?s) * ?A0 + ?s * ?A1"
    by (rule convex_eq)
  finally have a_eq: "a = (1 - ?s) * ?A0 + ?s * ?A1" .
  from convex_range [OF s0 s1 A0 A1] show ?thesis
    by (simp only: a_eq)
qed

lemma Math_atan2_quadrant:
  assumes "0 \<le> y" and "0 \<le> x"
  shows "0 \<le> Math_atan2 y x \<and> Math_atan2 y x \<le> pi / 2"
proof (cases "0 < x")
  case True
  with assms(1) have "0 \<le> arctan (y / x)"
    by (simp add: zero_le_arctan_iff)
  moreover have "arctan (y / x) \<le> pi / 2"
    using arctan_ubound [of "y / x"] by simp
  ultimately show ?thesis
    using True by (simp add: Math_atan2_def)
next
  case False
  with assms(2) have "x = 0" by simp
  then show ?thesis
    using assms(1) by (simp add: Math_atan2_def)
qed

lemma calculateDistance_range:
  "0 \<le> calculateDistance lat1 lon1 lat2 lon2
   \<and> calculateDistance lat1 lon1 lat2 lon2 \<le> 6371 * pi"
proof -
  let ?a = "sin (toRad (lat2 - lat1) / 2) * sin (toRad (lat2 - lat1) / 2) +
            cos (toRad lat1) * cos (toRad lat2) *
            sin (toRad (lon2 - lon1) / 2) * sin (toRad (lon2 - lon1) / 2)"
  have "toRad (lat2 - lat1) = toRad lat2 - toRad lat1"
    by (simp add: toRad_def left_diff_distrib)
  then have a: "0 \<le> ?a \<and> ?a \<le> 1"
    using haversine_term_range [of "toRad lat2" "toRad lat1" "toRad (lon2 - lon1)"] by simp
  then have "0 \<le> Math_atan2 (sqrt ?a) (sqrt (1 - ?a))
           \<and> Math_atan2 (sqrt ?a) (sqrt (1 - ?a)) \<le> pi / 2"
    by (intro Math_atan2_quadrant) simp_all
  then show ?thesis
    by (simp add: calculateDistance_def Let_def)
qed

subsection \<open>Facts about the storage layer\<close>

lemma matches_empty_where: "matches empty_where d"
  by (simp add: matches_def empty_where_def)

lemma findMany_newest_first: "newest_first (prisma_dog_findMany w table)"
proof -
  have "sorted (map (\<lambda>d. - createdAt d) (prisma_dog_findMany w table))"
    by (simp add: prisma_dog_findMany_def orderBy_createdAt_desc_def)
  then show ?thesis
    by (simp add: sorted_map newest_first_def)
qed

lemma findMany_set: "set (prisma_dog_findMany w table) = {d \<in> set table. matches w d}"
  by (auto simp add: prisma_dog_findMany_def orderBy_createdAt_desc_def)

lemma findMany_all_mset: "mset (prisma_dog_findMany empty_where table) = mset table"
  by (simp add: prisma_dog_findMany_def orderBy_createdAt_desc_def matches_empty_where)

lemma distance_antipode: "calculateDistance 0 0 0 180 = 6371 * pi"
  by (simp add: calculateDistance_def toRad_def Math_atan2_def)

lemma distance_origin: "calculateDistance 0 0 0 0 = 0"
  by (simp add: calculateDistance_def toRad_def Math_atan2_def)

subsection \<open>Radius search\<close>

lemma truthy_number_iff: "truthy_number r = (r \<noteq> Num 0 \<and> r \<noteq> NotANumber)"
  by (cases r) (simp_all add: truthy_number_def)

lemma distance_js_finite:
  "calculateDistance_js (Num la) (Num lo) lat2 lon2 = Num (calculateDistance la lo lat2 lon2)"
  by (simp add: calculateDistance_js_def)

lemma search_radius_applied:
  assumes "f_latitude filters = Some lat" and "f_longitude filters = Some lon"
    and "radiusKm filters = Some r" and "truthy_number r"
  shows "search filters table =
           filter (\<lambda>d. js_le (calculateDistance_js lat lon (latitude d) (longitude d)) r)
             (prisma_dog_findMany (search_where filters) table)"
  using assms by (simp add: search_def)

lemma search_radius_skipped:
  assumes "radiusKm filters = Some r" and "\<not> truthy_number r"
  shows "search filters table = prisma_dog_findMany (search_where filters) table"
  using assms by (simp add: search_def Let_def split: option.split)

text \<open>
  C1 (as amended). For every search input in which latitude and longitude are present and
  radiusKm is present and truthy, that is neither zero nor \<open>NaN\<close>, the result of \<open>search\<close>
  is the storage result filtered by the radius: every returned record has Haversine
  distance (Earth radius 6371 km) from (latitude, longitude) at most radiusKm under the
  comparison the code applies, which for finite inputs is the order of the reals. When
  radiusKm is present and zero or \<open>NaN\<close>, the radius filter is not applied and \<open>search\<close>
  returns the storage result as it is.
\<close>

theorem search_within_radius:
  "(f_latitude filters = Some lat \<and> f_longitude filters = Some lon
      \<and> radiusKm filters = Some r \<and> truthy_number r \<longrightarrow>
        search filters table =
          filter (\<lambda>d. js_le (calculateDistance_js lat lon (latitude d) (longitude d)) r)
            (prisma_dog_findMany (search_where filters) table)
      \<and> (\<forall>d \<in> set (search filters table).
            js_le (calculateDistance_js lat lon (latitude d) (longitude d)) r)
      \<and> (\<forall>la lo rr. lat = Num la \<and> lon = Num lo \<and> r = Num rr \<longrightarrow>
            (\<forall>d \<in> set (search filters table).
               calculateDistance la lo (latitude d) (longitude d) \<le> rr)))
   \<and> (radiusKm filters = Some r \<and> \<not> truthy_number r \<longrightarrow>
        search filters table = prisma_dog_findMany (search_where filters) table)
   \<and> truthy_number r = (r \<noteq> Num 0 \<and> r \<noteq> NotANumber)"
proof -
  have applied: "search filters table =
          filter (\<lambda>d. js_le (calculateDistance_js lat lon (latitude d) (longitude d)) r)
            (prisma_dog_findMany (search_where filters) table)
      \<and> (\<forall>d \<in> set (search filters table).
            js_le (calculateDistance_js lat lon (latitude d) (longitude d)) r)
      \<and> (\<forall>la lo rr. lat = Num la \<and> lon = Num lo \<and> r = Num rr \<longrightarrow>
            (\<forall>d \<in> set (search filters table).
               calculateDistance la lo (latitude d) (longitude d) \<le> rr))"
    if h: "f_latitude filters = Some lat" "f_longitude filters = Some lon"
      "radiusKm filters = Some r" "truthy_number r"
  proof -
    note eq = search_radius_applied [OF h, of table]
    have within: "\<forall>d \<in> set (search filters table).
            js_le (calculateDistance_js lat lon (latitude d) (longitude d)) r"
      by (simp add: eq)
    have "calculateDistance la lo (latitude d) (longitude d) \<le> rr"
      if "lat = Num la" "lon = Num lo" "r = Num rr" "d \<in> set (search filters table)"
      for la lo rr d
    proof -
      from within that(4)
      have "js_le (calculateDistance_js lat lon (latitude d) (longitude d)) r"
        by (rule bspec)
      with that(1-3) show ?thesis
        by (simp add: distance_js_finite)
    qed
    with eq within show ?thesis
      by blast
  qed
  have skipped: "search filters table = prisma_dog_findMany (search_where filters) table"
    if "radiusKm filters = Some r" "\<not> truthy_number r"
    using that by (rule search_radius_skipped)
  from applied skipped truthy_number_iff [of r] show ?thesis
    by blast
qed

theorem search_within_radius_witness:
  "f_latitude (geo_filters 0 0 (Num 1)) = Some (Num 0)
   \<and> f_longitude (geo_filters 0 0 (Num 1)) = Some (Num 0)
   \<and> radiusKm (geo_filters 0 0 (Num 1)) = Some (Num 1)
   \<and> truthy_number (Num 1)
   \<and> search (geo_filters 0 0 (Num 1)) [dog_at ''a'' 0 0 1, dog_at ''b'' 0 180 2] =
        [dog_at ''a'' 0 0 1]
   \<and> calculateDistance 0 0 (latitude (dog_at ''a'' 0 0 1)) (longitude (dog_at ''a'' 0 0 1)) \<le> 1
   \<and> \<not> truthy_number (Num 0)
   \<and> search (geo_filters 0 0 (Num 0)) [dog_at ''a'' 0 0 1, dog_at ''b'' 0 180 2] =
        [dog_at ''b'' 0 180 2, dog_at ''a'' 0 0 1]
   \<and> \<not> truthy_number NotANumber
   \<and> search (geo_filters 0 0 NotANumber) [dog_at ''a'' 0 0 1, dog_at ''b'' 0 180 2] =
        [dog_at ''b'' 0 180 2, dog_at ''a'' 0 0 1]"
proof -
  let ?f = "geo_filters 0 0 (Num 1)"
  let ?t = "[dog_at ''a'' 0 0 1, dog_at ''b'' 0 180 2]"
  have w: "search_where (geo_filters 0 0 r) = empty_where" for r
    by (simp add: search_where_def geo_filters_def no_filters_def)
  have far: "\<not> 6371 * pi \<le> (1::real)"
    using pi_ge_two by linarith
  have fm: "prisma_dog_findMany empty_where ?t = [dog_at ''b'' 0 180 2, dog_at ''a'' 0 0 1]"
    by (simp add: prisma_dog_findMany_def orderBy_createdAt_desc_def matches_empty_where
        dog_at_def)
  have h: "f_latitude (geo_filters 0 0 r) = Some (Num 0)"
    "f_longitude (geo_filters 0 0 r) = Some (Num 0)"
    "radiusKm (geo_filters 0 0 r) = Some r" for r
    by (simp_all add: geo_filters_def no_filters_def)
  have t1: "truthy_number (Num 1)" and t0: "\<not> truthy_number (Num 0)"
    and tn: "\<not> truthy_number NotANumber"
    by (simp_all add: truthy_number_def)
  note inst = search_within_radius [of ?f "Num 0" "Num 0" "Num 1" ?t, THEN conjunct1, rule_format,
      OF conjI [OF h(1) conjI [OF h(2) conjI [OF h(3) t1]]]]
  have "search ?f ?t =
          filter (\<lambda>d. js_le (calculateDistance_js (Num 0) (Num 0) (latitude d) (longitude d)) (Num 1))
            [dog_at ''b'' 0 180 2, dog_at ''a'' 0 0 1]"
    using inst [THEN conjunct1] by (simp only: w fm)
  also have "\<dots> = [dog_at ''a'' 0 0 1]"
    using far by (simp add: dog_at_def distance_js_finite distance_antipode distance_origin)
  finally have res: "search ?f ?t = [dog_at ''a'' 0 0 1]" .
  have mem: "dog_at ''a'' 0 0 1 \<in> set (search ?f ?t)"
    by (simp only: res list.set_intros)
  from inst [THEN conjunct2, THEN conjunct2]
  have "\<forall>d \<in> set (search ?f ?t). calculateDistance 0 0 (latitude d) (longitude d) \<le> 1"
    by blast
  from this mem
  have near: "calculateDistance 0 0 (latitude (dog_at ''a'' 0 0 1)) (longitude (dog_at ''a'' 0 0 1)) \<le> 1"
    by (rule bspec)
  have zero: "search (geo_filters 0 0 (Num 0)) ?t = [dog_at ''b'' 0 180 2, dog_at ''a'' 0 0 1]"
    using search_within_radius [of "geo_filters 0 0 (Num 0)" "Num 0" "Num 0" "Num 0" ?t]
      h(3) [of "Num 0"] t0
    by (simp only: w fm) blast
  have nan: "search (geo_filters 0 0 NotANumber) ?t = [dog_at ''b'' 0 180 2, dog_at ''a'' 0 0 1]"
    using search_within_radius [of "geo_filters 0 0 NotANumber" "Num 0" "Num 0" NotANumber ?t]
      h(3) [of NotANumber] tn
    by (simp only: w fm) blast
  from h [of "Num 1"] t1 res near t0 zero tn nan show ?thesis
    by blast
qed

text \<open>
  C1 as stated fails when radiusKm is present and zero, and when it is \<open>NaN\<close>: the guard
  tests the radius for truthiness, the radius filter is skipped, and a record on the other
  side of the globe is returned.
\<close>

theorem search_radius_zero_counterexample:
  "f_latitude (geo_filters 0 0 (Num 0)) = Some (Num 0)
   \<and> f_longitude (geo_filters 0 0 (Num 0)) = Some (Num 0)
   \<and> radiusKm (geo_filters 0 0 (Num 0)) = Some (Num 0)
   \<and> dog_at ''b'' 0 180 2 \<in> set (search (geo_filters 0 0 (Num 0)) [dog_at ''b'' 0 180 2])
   \<and> \<not> js_le (calculateDistance_js (Num 0) (Num 0)
              (latitude (dog_at ''b'' 0 180 2)) (longitude (dog_at ''b'' 0 180 2))) (Num 0)
   \<and> \<not> calculateDistance 0 0 (latitude (dog_at ''b'' 0 180 2)) (longitude (dog_at ''b'' 0 180 2))
         \<le> 0
   \<and> radiusKm (geo_filters 0 0 NotANumber) = Some NotANumber
   \<and> dog_at ''b'' 0 180 2 \<in> set (search (geo_filters 0 0 NotANumber) [dog_at ''b'' 0 180 2])
   \<and> \<not> js_le (calculateDistance_js (Num 0) (Num 0)
              (latitude (dog_at ''b'' 0 180 2)) (longitude (dog_at ''b'' 0 180 2))) NotANumber"
proof -
  have "\<not> 6371 * pi \<le> (0::real)"
    using pi_gt_zero by (simp add: not_le)
  then show ?thesis
    by (simp add: search_def search_where_def geo_filters_def no_filters_def
        prisma_dog_findMany_def orderBy_createdAt_desc_def matches_empty_where dog_at_def
        distance_js_finite distance_antipode truthy_number_def)
qed

subsection \<open>Pagination\<close>

lemma ceil_div_bounds:
  fixes n :: nat and k :: int
  assumes "1 \<le> k"
  shows "(\<lceil>real n / real_of_int k\<rceil> - 1) * k < int n
         \<and> int n \<le> \<lceil>real n / real_of_int k\<rceil> * k"
proof -
  have k: "0 < real_of_int k" using assms by simp
  let ?q = "real n / real_of_int k"
  have "?q * real_of_int k \<le> of_int \<lceil>?q\<rceil> * real_of_int k"
    using k by (intro mult_right_mono le_of_int_ceiling) simp
  then have "real n \<le> of_int (\<lceil>?q\<rceil> * k)"
    using k by simp
  then have a: "int n \<le> \<lceil>?q\<rceil> * k"
    by linarith
  have "of_int \<lceil>?q\<rceil> - 1 < ?q"
    using ceiling_correct [of ?q] by linarith
  then have "(of_int \<lceil>?q\<rceil> - 1) * real_of_int k < ?q * real_of_int k"
    using k by (intro mult_strict_right_mono)
  then have "of_int ((\<lceil>?q\<rceil> - 1) * k) < real n"
    using k by simp
  then have b: "(\<lceil>?q\<rceil> - 1) * k < int n"
    by linarith
  from a b show ?thesis by simp
qed

text \<open>
  C2. For every page \<open>\<ge> 1\<close> and page size \<open>\<ge> 1\<close> and every table, \<open>findAll\<close> returns a
  result; its records are the newest-first arrangement of the table with exactly
  \<open>(page - 1) * pageSize\<close> records skipped and at most \<open>pageSize\<close> taken; the metadata carries
  the page, the page size, the total number of records and
  \<open>totalPages = ceil (total / pageSize)\<close>, the least number of pages that hold all records.
  With no records the sequence is empty and \<open>totalPages = 0\<close>.
\<close>

theorem findAll_page:
  assumes "1 \<le> page_n" and "1 \<le> limit_n"
  shows "\<exists>r newest tp.
           findAll page_n limit_n table = Some r
         \<and> mset newest = mset table \<and> newest_first newest
         \<and> r_dogs r = take (nat limit_n) (drop (nat ((page_n - 1) * limit_n)) newest)
         \<and> int (length (r_dogs r)) \<le> limit_n
         \<and> p_page (r_pagination r) = page_n
         \<and> p_limit (r_pagination r) = limit_n
         \<and> p_total (r_pagination r) = length table
         \<and> p_totalPages (r_pagination r) = Finite tp
         \<and> tp = \<lceil>real (length table) / real_of_int limit_n\<rceil>
         \<and> (tp - 1) * limit_n < int (length table) \<and> int (length table) \<le> tp * limit_n
         \<and> (table = [] \<longrightarrow> r_dogs r = [] \<and> tp = 0)"
proof -
  let ?newest = "prisma_dog_findMany empty_where table"
  let ?skip = "(page_n - 1) * limit_n"
  let ?ds = "take (nat limit_n) (drop (nat ?skip) ?newest)"
  let ?tp = "\<lceil>real (length table) / real_of_int limit_n\<rceil>"
  let ?r = "\<lparr>r_dogs = ?ds,
             r_pagination = \<lparr>p_page = page_n, p_limit = limit_n, p_total = length table,
                              p_totalPages = Finite ?tp\<rparr>\<rparr>"
  have skip: "0 \<le> ?skip" using assms by simp
  have st: "skip_take ?skip limit_n ?newest = Some ?ds"
    using skip assms(2) by (simp add: skip_take_def)
  have run: "findAll page_n limit_n table = Some ?r"
    using assms(2)
    by (simp add: findAll_def st prisma_dog_count_def Math_ceil_div_def Let_def)
  have len: "int (length ?ds) \<le> limit_n" using assms(2) by simp
  have empty: "table = [] \<longrightarrow> ?ds = [] \<and> ?tp = 0"
    by (simp add: prisma_dog_findMany_def orderBy_createdAt_desc_def)
  show ?thesis
    using run findMany_all_mset [of table] findMany_newest_first [of empty_where table]
      len ceil_div_bounds [OF assms(2), of "length table"] empty
    by (intro exI [of _ ?r] exI [of _ ?newest] exI [of _ ?tp]) simp
qed

theorem findAll_page_witness:
  "(1::int) \<le> 2 \<and> (1::int) \<le> 50 \<and>
   (\<exists>r. findAll 2 2 [dog_at ''a'' 0 0 10, dog_at ''b'' 0 0 30, dog_at ''c'' 0 0 20] = Some r
      \<and> r_dogs r = [dog_at ''a'' 0 0 10]
      \<and> p_total (r_pagination r) = 3 \<and> p_totalPages (r_pagination r) = Finite 2) \<and>
   (\<exists>r. findAll 1 50 [] = Some r
      \<and> r_dogs r = [] \<and> p_total (r_pagination r) = 0
      \<and> p_totalPages (r_pagination r) = Finite 0)"
proof -
  let ?t = "[dog_at ''a'' 0 0 10, dog_at ''b'' 0 0 30, dog_at ''c'' 0 0 20]"
  have h: "(1::int) \<le> 2" "(1::int) \<le> 1" "(1::int) \<le> 50" by simp_all
  have run: "findAll 2 2 ?t =
      Some \<lparr>r_dogs = [dog_at ''a'' 0 0 10],
            r_pagination = \<lparr>p_page = 2, p_limit = 2, p_total = 3, p_totalPages = Finite 2\<rparr>\<rparr>"
    by (simp add: findAll_def skip_take_def prisma_dog_findMany_def orderBy_createdAt_desc_def
        matches_empty_where prisma_dog_count_def Math_ceil_div_def dog_at_def)
  from findAll_page [OF h(1) h(1), of ?t] obtain r where "findAll 2 2 ?t = Some r" by blast
  with run have first: "\<exists>r. findAll 2 2 ?t = Some r
      \<and> r_dogs r = [dog_at ''a'' 0 0 10]
      \<and> p_total (r_pagination r) = 3 \<and> p_totalPages (r_pagination r) = Finite 2"
    by simp
  from findAll_page [OF h(2) h(3), of "[]"] have second: "\<exists>r. findAll 1 50 [] = Some r
      \<and> r_dogs r = [] \<and> p_total (r_pagination r) = 0
      \<and> p_totalPages (r_pagination r) = Finite 0"
    by auto
  from h first second show ?thesis by blast
qed

subsection \<open>Map markers\<close>

lemma matches_map_where: "matches (map_where bs) d = in_bounds bs d"
  by (simp add: matches_def map_where_def empty_where_def in_bounds_def split: option.split)

lemma findMany_mset: "mset (prisma_dog_findMany w table) = mset (filter (matches w) table)"
  by (simp add: prisma_dog_findMany_def orderBy_createdAt_desc_def)

lemma newest_first_take: "newest_first ds \<Longrightarrow> newest_first (take n ds)"
  by (simp add: newest_first_def sorted_wrt_take)

text \<open>
  C8. For every bounds input, present or absent, and every table, \<open>getForMap\<close> returns the
  marker projection of the first 100 records of the newest-first arrangement of the
  records inside the bounds (all records without bounds): at most 100 markers, newest
  first; with bounds, every marker has its latitude in \<open>[south, north]\<close> and its longitude
  in \<open>[west, east]\<close>, both ends included.
\<close>

theorem getForMap_capped:
  "\<exists>newest.
       mset newest = mset (filter (in_bounds bs) table) \<and> newest_first newest
     \<and> getForMap bs table = map select_marker (take 100 newest)
     \<and> length (getForMap bs table) \<le> 100
     \<and> sorted_wrt (\<lambda>a b. m_createdAt b \<le> m_createdAt a) (getForMap bs table)
     \<and> (\<forall>b. bs = Some b \<longrightarrow>
           (\<forall>m \<in> set (getForMap bs table).
              south b \<le> m_latitude m \<and> m_latitude m \<le> north b \<and>
              west b \<le> m_longitude m \<and> m_longitude m \<le> east b))"
proof -
  let ?newest = "prisma_dog_findMany (map_where bs) table"
  have ms: "mset ?newest = mset (filter (in_bounds bs) table)"
    by (simp add: findMany_mset matches_map_where)
  have nf: "newest_first ?newest"
    by (rule findMany_newest_first)
  have run: "getForMap bs table = map select_marker (take 100 ?newest)"
    by (simp add: getForMap_def)
  have len: "length (getForMap bs table) \<le> 100"
    by (simp add: run)
  have "newest_first (take 100 ?newest)"
    using nf by (rule newest_first_take)
  then have srt: "sorted_wrt (\<lambda>a b. m_createdAt b \<le> m_createdAt a) (getForMap bs table)"
    by (simp add: run newest_first_def sorted_wrt_map select_marker_def)
  have inb: "south b \<le> m_latitude m \<and> m_latitude m \<le> north b \<and>
             west b \<le> m_longitude m \<and> m_longitude m \<le> east b"
    if "bs = Some b" and "m \<in> set (getForMap bs table)" for b m
  proof -
    from that(2) obtain d where d: "d \<in> set (take 100 ?newest)" and m: "m = select_marker d"
      by (auto simp add: run)
    from d have "d \<in> set ?newest" by (rule in_set_takeD)
    then have "in_bounds bs d"
      by (simp add: findMany_set matches_map_where)
    with that(1) m show ?thesis
      by (simp add: in_bounds_def select_marker_def)
  qed
  from ms nf run len srt inb show ?thesis
    by blast
qed

theorem getForMap_capped_witness:
  "getForMap (Some box10) [dog_at ''a'' 0 0 1, dog_at ''b'' 0 180 2] =
     [select_marker (dog_at ''a'' 0 0 1)]
   \<and> length (getForMap None (replicate 101 (dog_at ''a'' 0 0 1))) = 100
   \<and> south box10 \<le> m_latitude (select_marker (dog_at ''a'' 0 0 1))
   \<and> m_longitude (select_marker (dog_at ''a'' 0 0 1)) \<le> east box10"
proof -
  let ?t = "[dog_at ''a'' 0 0 1, dog_at ''b'' 0 180 2]"
  have run: "getForMap (Some box10) ?t = [select_marker (dog_at ''a'' 0 0 1)]"
    by (simp add: getForMap_def prisma_dog_findMany_def orderBy_createdAt_desc_def
        matches_map_where in_bounds_def box10_def dog_at_def)
  have big: "length (getForMap None (replicate 101 (dog_at ''a'' 0 0 1))) = 100"
    by (simp add: getForMap_def prisma_dog_findMany_def orderBy_createdAt_desc_def
        matches_map_where in_bounds_def)
  from getForMap_capped [of "Some box10" ?t]
  have "\<forall>m \<in> set (getForMap (Some box10) ?t).
          south box10 \<le> m_latitude m \<and> m_longitude m \<le> east box10"
    by blast
  then have "south box10 \<le> m_latitude (select_marker (dog_at ''a'' 0 0 1))
      \<and> m_longitude (select_marker (dog_at ''a'' 0 0 1)) \<le> east box10"
    by (simp add: run)
  with run big show ?thesis by blast
qed

subsection \<open>Text filters of the search\<close>

lemma query_and_breed_rejects_poodle: "matches (search_where query_and_breed) poodle = False"
  by code_simp

lemma query_alone_accepts_poodle:
  "matches (search_where (query_and_breed\<lparr>f_breed := None\<rparr>)) poodle = True"
  by code_simp

lemma query_and_breed_accepts_labrador:
  "matches (search_where query_and_breed) labrador = True"
  by code_simp

lemma query_and_breed_no_radius:
  "f_latitude query_and_breed = None"
  "f_latitude (query_and_breed\<lparr>f_breed := None\<rparr>) = None"
  by (simp_all add: query_and_breed_def no_filters_def)

text \<open>
  C3 (as amended). \<open>search\<close> applies the case-insensitive breed substring filter exactly
  when breed is present and not the empty string, whether or not a query is present: the
  compiled predicate then requires the breed to contain the given string, ignoring case,
  next to the three-column OR clause that a non-empty query compiles to, and every
  returned record satisfies it.
\<close>

theorem search_breed_filter:
  "w_breed (search_where filters) = (if truthy (f_breed filters) then f_breed filters else None)
   \<and> w_OR (search_where filters) =
       (case query filters of
          None \<Rightarrow> None
        | Some q \<Rightarrow> if q \<noteq> [] then Some [(Description, q), (Breed, q), (Color, q)] else None)
   \<and> (\<forall>b. f_breed filters = Some b \<and> b \<noteq> [] \<longrightarrow>
         (\<forall>d \<in> set (search filters table). contains_insensitive (breed d) b))"
proof -
  have wb: "w_breed (search_where filters) =
              (if truthy (f_breed filters) then f_breed filters else None)"
    by (simp add: search_where_def empty_where_def truthy_def Let_def split: option.split)
  have wo: "w_OR (search_where filters) =
       (case query filters of
          None \<Rightarrow> None
        | Some q \<Rightarrow> if q \<noteq> [] then Some [(Description, q), (Breed, q), (Color, q)] else None)"
    by (simp add: search_where_def empty_where_def Let_def split: option.split)
  have sub: "set (search filters table) \<subseteq> set (prisma_dog_findMany (search_where filters) table)"
    by (auto simp add: search_def Let_def split: option.splits if_splits)
  have mt: "contains_insensitive (breed d) b"
    if "f_breed filters = Some b" "b \<noteq> []" "d \<in> set (search filters table)" for b d
  proof -
    from that(3) sub have "matches (search_where filters) d"
      by (auto simp add: findMany_set)
    moreover from that(1,2) wb have "w_breed (search_where filters) = Some b"
      by (simp add: truthy_def)
    ultimately show ?thesis
      by (simp add: matches_def)
  qed
  from wb wo mt show ?thesis by blast
qed

theorem search_breed_filter_witness:
  "f_breed query_and_breed = Some ''lab'' \<and> ''lab'' \<noteq> []
   \<and> query query_and_breed = Some ''dog''
   \<and> search query_and_breed [poodle, labrador] = [labrador]
   \<and> contains_insensitive (breed labrador) ''lab''"
proof -
  have h: "f_breed query_and_breed = Some ''lab'' \<and> ''lab'' \<noteq> []"
    by (simp add: query_and_breed_def no_filters_def)
  have q: "query query_and_breed = Some ''dog''"
    by (simp add: query_and_breed_def no_filters_def)
  have run: "search query_and_breed [poodle, labrador] = [labrador]"
    by (simp add: search_def prisma_dog_findMany_def orderBy_createdAt_desc_def
        query_and_breed_rejects_poodle query_and_breed_accepts_labrador
        query_and_breed_no_radius)
  from search_breed_filter [of query_and_breed "[poodle, labrador]"] h
  have "\<forall>d \<in> set (search query_and_breed [poodle, labrador]).
          contains_insensitive (breed d) ''lab''"
    by blast
  then have "contains_insensitive (breed labrador) ''lab''"
    by (simp add: run)
  with h q run show ?thesis by blast
qed

text \<open>
  C3 as stated fails when a query and a breed are both present: the breed clause is
  compiled and applied all the same, and it removes a record that the query alone would
  return.
\<close>

theorem search_breed_with_query_counterexample:
  "query query_and_breed = Some ''dog''
   \<and> f_breed query_and_breed = Some ''lab''
   \<and> w_breed (search_where query_and_breed) = Some ''lab''
   \<and> search query_and_breed [poodle] = []
   \<and> search (query_and_breed\<lparr>f_breed := None\<rparr>) [poodle] = [poodle]"
proof -
  have a: "query query_and_breed = Some ''dog''" "f_breed query_and_breed = Some ''lab''"
    by (simp_all add: query_and_breed_def no_filters_def)
  have b: "w_breed (search_where query_and_breed) = Some ''lab''"
    by (simp add: search_where_def query_and_breed_def no_filters_def empty_where_def)
  have c: "search query_and_breed [poodle] = []"
    by (simp add: search_def prisma_dog_findMany_def orderBy_createdAt_desc_def
        query_and_breed_rejects_poodle query_and_breed_no_radius)
  have d: "search (query_and_breed\<lparr>f_breed := None\<rparr>) [poodle] = [poodle]"
    by (simp add: search_def prisma_dog_findMany_def orderBy_createdAt_desc_def
        query_alone_accepts_poodle query_and_breed_no_radius)
  from a b c d show ?thesis by blast
qed

text \<open>
  C10. For every search input, an empty-string query, status, size or breed compiles no
  filter clause for that field, and \<open>search\<close> returns exactly what it returns when the field
  is absent.
\<close>

theorem search_empty_string_absent:
  "search_where (filters\<lparr>query := Some []\<rparr>) = search_where (filters\<lparr>query := None\<rparr>)
   \<and> w_OR (search_where (filters\<lparr>query := Some []\<rparr>)) = None
   \<and> search (filters\<lparr>query := Some []\<rparr>) table = search (filters\<lparr>query := None\<rparr>) table
   \<and> search_where (filters\<lparr>f_status := Some []\<rparr>) = search_where (filters\<lparr>f_status := None\<rparr>)
   \<and> w_status (search_where (filters\<lparr>f_status := Some []\<rparr>)) = None
   \<and> search (filters\<lparr>f_status := Some []\<rparr>) table = search (filters\<lparr>f_status := None\<rparr>) table
   \<and> search_where (filters\<lparr>f_size := Some []\<rparr>) = search_where (filters\<lparr>f_size := None\<rparr>)
   \<and> w_size (search_where (filters\<lparr>f_size := Some []\<rparr>)) = None
   \<and> search (filters\<lparr>f_size := Some []\<rparr>) table = search (filters\<lparr>f_size := None\<rparr>) table
   \<and> search_where (filters\<lparr>f_breed := Some []\<rparr>) = search_where (filters\<lparr>f_breed := None\<rparr>)
   \<and> w_breed (search_where (filters\<lparr>f_breed := Some []\<rparr>)) = None
   \<and> search (filters\<lparr>f_breed := Some []\<rparr>) table = search (filters\<lparr>f_breed := None\<rparr>) table"
proof -
  have q: "search_where (filters\<lparr>query := Some []\<rparr>) = search_where (filters\<lparr>query := None\<rparr>)"
    by (simp add: search_where_def)
  have s: "search_where (filters\<lparr>f_status := Some []\<rparr>) =
           search_where (filters\<lparr>f_status := None\<rparr>)"
    by (simp add: search_where_def)
  have z: "search_where (filters\<lparr>f_size := Some []\<rparr>) = search_where (filters\<lparr>f_size := None\<rparr>)"
    by (simp add: search_where_def)
  have b: "search_where (filters\<lparr>f_breed := Some []\<rparr>) =
           search_where (filters\<lparr>f_breed := None\<rparr>)"
    by (simp add: search_where_def)
  have q0: "w_OR (search_where (filters\<lparr>query := None\<rparr>)) = None"
    by (simp add: search_where_def empty_where_def Let_def split: option.split)
  have s0: "w_status (search_where (filters\<lparr>f_status := None\<rparr>)) = None"
    by (simp add: search_where_def empty_where_def Let_def split: option.split)
  have z0: "w_size (search_where (filters\<lparr>f_size := None\<rparr>)) = None"
    by (simp add: search_where_def empty_where_def Let_def split: option.split)
  have b0: "w_breed (search_where (filters\<lparr>f_breed := None\<rparr>)) = None"
    by (simp add: search_where_def empty_where_def Let_def split: option.split)
  have qs: "search (filters\<lparr>query := Some []\<rparr>) table = search (filters\<lparr>query := None\<rparr>) table"
    by (simp add: search_def q)
  have ss: "search (filters\<lparr>f_status := Some []\<rparr>) table =
            search (filters\<lparr>f_status := None\<rparr>) table"
    by (simp add: search_def s)
  have zs: "search (filters\<lparr>f_size := Some []\<rparr>) table =
            search (filters\<lparr>f_size := None\<rparr>) table"
    by (simp add: search_def z)
  have bs: "search (filters\<lparr>f_breed := Some []\<rparr>) table =
            search (filters\<lparr>f_breed := None\<rparr>) table"
    by (simp add: search_def b)
  show ?thesis
    by (simp only: q s z b q0 s0 z0 b0 qs ss zs bs simp_thms)
qed

theorem search_empty_string_absent_witness:
  "search (query_and_breed\<lparr>f_breed := Some []\<rparr>) [poodle] = [poodle]
   \<and> search (query_and_breed\<lparr>f_breed := None\<rparr>) [poodle] = [poodle]"
proof -
  have d: "search (query_and_breed\<lparr>f_breed := None\<rparr>) [poodle] = [poodle]"
    by (simp add: search_def prisma_dog_findMany_def orderBy_createdAt_desc_def
        query_alone_accepts_poodle query_and_breed_no_radius)
  from search_empty_string_absent [of query_and_breed "[poodle]"]
  have "search (query_and_breed\<lparr>f_breed := Some []\<rparr>) [poodle] =
        search (query_and_breed\<lparr>f_breed := None\<rparr>) [poodle]"
    by blast
  with d show ?thesis by simp
qed

subsection \<open>Ownership check of update and delete\<close>

lemma matches_owner_where: "matches (owner_where i u) d = (dogId d = i \<and> userId d = u)"
  by (simp add: matches_def owner_where_def empty_where_def)

lemma findFirst_owner_None:
  "(prisma_dog_findFirst (owner_where i u) table = None) =
     (\<not> (\<exists>d \<in> set table. dogId d = i \<and> userId d = u))"
  by (auto simp add: prisma_dog_findFirst_def find_None_iff matches_owner_where)

text \<open>
  C5. For every id, requesting user and world in which no stored record has both that id
  and that owner, \<open>update\<close> and \<open>delete\<close> fail with the not-found-or-not-permitted error and
  return the world as it was: no record changed, no call to the storage layer's update or
  delete in the trace.
\<close>

theorem update_delete_not_owner:
  assumes "\<not> (\<exists>d \<in> set (stored w). dogId d = i \<and> userId d = u)"
  shows "update i u input w = (Inl NotFoundOrNotPermitted, w)
         \<and> delete i u w = (Inl NotFoundOrNotPermitted, w)"
proof -
  from assms have "prisma_dog_findFirst (owner_where i u) (stored w) = None"
    by (simp only: findFirst_owner_None not_False_eq_True)
  then show ?thesis
    by (simp add: update_def delete_def)
qed

theorem update_delete_not_owner_witness:
  "\<not> (\<exists>d \<in> set (stored world0). dogId d = ''a'' \<and> userId d = ''u2'')
   \<and> update ''a'' ''u2'' (breed_patch ''Poodle'') world0 = (Inl NotFoundOrNotPermitted, world0)
   \<and> delete ''a'' ''u2'' world0 = (Inl NotFoundOrNotPermitted, world0)
   \<and> \<not> (\<exists>d \<in> set (stored world0). dogId d = ''b'' \<and> userId d = ''u1'')
   \<and> update ''b'' ''u1'' (breed_patch ''Poodle'') world0 = (Inl NotFoundOrNotPermitted, world0)
   \<and> delete ''b'' ''u1'' world0 = (Inl NotFoundOrNotPermitted, world0)"
proof -
  have h1: "\<not> (\<exists>d \<in> set (stored world0). dogId d = ''a'' \<and> userId d = ''u2'')"
    by (simp add: world0_def dog_at_def)
  have h2: "\<not> (\<exists>d \<in> set (stored world0). dogId d = ''b'' \<and> userId d = ''u1'')"
    by (simp add: world0_def dog_at_def)
  from h1 h2 update_delete_not_owner [OF h1, of "breed_patch ''Poodle''"]
    update_delete_not_owner [OF h2, of "breed_patch ''Poodle''"]
  show ?thesis by blast
qed

text \<open>For the owner, the same calls reach the storage layer.\<close>

lemma update_owner_ok:
  "update ''a'' ''u1'' (breed_patch ''Poodle'') world0 =
     (Inr ((dog_at ''a'' 0 0 1)\<lparr>breed := Some ''Poodle''\<rparr>),
      \<lparr>stored = [(dog_at ''a'' 0 0 1)\<lparr>breed := Some ''Poodle''\<rparr>],
       calls = [DogUpdate ''a'']\<rparr>)"
  by (simp add: update_def prisma_dog_findFirst_def matches_owner_where world0_def dog_at_def
      prisma_dog_update_def prisma_dog_findUnique_def apply_patch_def breed_patch_def)

lemma delete_owner_ok:
  "delete ''a'' ''u1'' world0 = (Inr True, \<lparr>stored = [], calls = [DogDelete ''a'']\<rparr>)"
  by (simp add: delete_def prisma_dog_findFirst_def matches_owner_where world0_def dog_at_def
      prisma_dog_delete_def prisma_dog_findUnique_def)

subsection \<open>Ownership is immutable\<close>

lemma userId_apply_patch: "userId (apply_patch p d) = userId d"
  by (simp add: apply_patch_def)

lemma dogId_apply_patch: "dogId (apply_patch p d) = dogId d"
  by (simp add: apply_patch_def)

lemma update_row_userId: "map userId (update_row i (apply_patch p) ds) = map userId ds"
  by (induction ds) (simp_all add: userId_apply_patch)

lemma update_row_dogId: "map dogId (update_row i (apply_patch p) ds) = map dogId ds"
  by (induction ds) (simp_all add: dogId_apply_patch)

lemma distinct_dogId_eq:
  assumes "distinct (map dogId ds)" and "d \<in> set ds" and "e \<in> set ds"
    and "dogId d = dogId e"
  shows "d = e"
  using assms by (meson distinct_map inj_on_def)

text \<open>
  C9. For every record, every requesting owner and every patch that \<open>update\<close> accepts, the
  updated record has the identifier and the owning user of the record it replaces, and no
  stored record changes its owner; with unique identifiers that owner is the requesting
  user.
\<close>

theorem update_keeps_owner:
  assumes "update i u input w = (Inr d', w')"
  shows "\<exists>d0. prisma_dog_findUnique i (stored w) = Some d0
           \<and> dogId d0 = i \<and> dogId d' = i \<and> userId d' = userId d0
           \<and> map userId (stored w') = map userId (stored w)
           \<and> map dogId (stored w') = map dogId (stored w)
           \<and> (distinct (map dogId (stored w)) \<longrightarrow> userId d' = u)"
proof -
  from assms obtain e where e: "prisma_dog_findFirst (owner_where i u) (stored w) = Some e"
    and run: "prisma_dog_update i input w = (Inr d', w')"
    by (auto simp add: update_def split: option.splits)
  from run obtain d0 where d0: "prisma_dog_findUnique i (stored w) = Some d0"
    and d': "d' = apply_patch input d0"
    and w': "stored w' = update_row i (apply_patch input) (stored w)"
    by (auto simp add: prisma_dog_update_def Let_def split: option.splits)
  from d0 have d0_in: "d0 \<in> set (stored w)" and d0_id: "dogId d0 = i"
    by (auto simp add: prisma_dog_findUnique_def find_Some_iff)
  from e have e_in: "e \<in> set (stored w)" and e_id: "dogId e = i" and e_user: "userId e = u"
    by (auto simp add: prisma_dog_findFirst_def find_Some_iff matches_owner_where)
  have "userId d' = u" if "distinct (map dogId (stored w))"
  proof -
    from that d0_in e_in d0_id e_id have "d0 = e"
      by (intro distinct_dogId_eq [of "stored w"]) simp_all
    with e_user d' show ?thesis
      by (simp add: userId_apply_patch)
  qed
  with d0 d0_id d' w' show ?thesis
    by (simp add: userId_apply_patch dogId_apply_patch update_row_userId update_row_dogId)
qed

theorem update_keeps_owner_witness:
  "update ''a'' ''u1'' (breed_patch ''Poodle'') world0 =
     (Inr ((dog_at ''a'' 0 0 1)\<lparr>breed := Some ''Poodle''\<rparr>),
      \<lparr>stored = [(dog_at ''a'' 0 0 1)\<lparr>breed := Some ''Poodle''\<rparr>],
       calls = [DogUpdate ''a'']\<rparr>)
   \<and> userId ((dog_at ''a'' 0 0 1)\<lparr>breed := Some ''Poodle''\<rparr>) = ''u1''
   \<and> map userId (stored world0) = [''u1'']"
proof -
  from update_keeps_owner [OF update_owner_ok]
  have "userId ((dog_at ''a'' 0 0 1)\<lparr>breed := Some ''Poodle''\<rparr>) = ''u1''"
    by (simp add: world0_def dog_at_def)
  with update_owner_ok show ?thesis
    by (simp add: world0_def dog_at_def)
qed

subsection \<open>Breed prediction on create\<close>

lemma create_fresh:
  assumes "newId \<notin> set (map dogId (stored w))"
  shows "\<exists>dog0. prisma_dog_create newId now data w =
           (Inr dog0, \<lparr>stored = stored w @ [dog0], calls = calls w @ [DogCreate]\<rparr>)
         \<and> dogId dog0 = newId \<and> breed dog0 = in_breed data
         \<and> imageUrl dog0 = in_imageUrl data
         \<and> userId dog0 = in_userId data \<and> createdAt dog0 = now"
  using assms by (simp add: prisma_dog_create_def Let_def)

lemma create_duplicate:
  assumes "newId \<in> set (map dogId (stored w))"
  shows "create ml newId now input w =
           (Inl StorageFailure, w\<lparr>calls := calls w @ [DogCreate]\<rparr>)"
  using assms by (simp add: create_def prisma_dog_create_def Let_def)

text \<open>The only failure \<open>create\<close> can return is the one of the storage creation.\<close>

lemma create_failure_is_storage:
  assumes "fst (create ml newId now input w) = Inl e"
  shows "e = StorageFailure \<and> newId \<in> set (map dogId (stored w))"
proof (cases "newId \<in> set (map dogId (stored w))")
  case True
  with assms show ?thesis
    by (simp add: create_duplicate)
next
  case False
  from create_fresh [OF False, of now "create_data input"]
  obtain dog0 where c: "prisma_dog_create newId now (create_data input) w =
           (Inr dog0, \<lparr>stored = stored w @ [dog0], calls = calls w @ [DogCreate]\<rparr>)"
    by blast
  have "\<exists>d. fst (create ml newId now input w) = Inr d"
    by (auto simp add: create_def c Let_def split: option.splits sum.splits prod.splits)
  with assms show ?thesis
    by simp
qed

text \<open>
  C4. For every create input with an image reference present and no breed supplied, once
  the storage layer has created the record: if the breed-prediction service throws or
  returns an empty or absent breed, \<open>create\<close> succeeds and returns the record exactly as the
  storage layer created it, with no breed; the table holds that record unchanged, the only
  calls made are the creation and, for a non-empty image reference, the one prediction,
  and the failure does not reach the caller.
\<close>

theorem create_survives_prediction_failure:
  assumes "in_imageUrl input = Some url" and "in_breed input = None"
    and "newId \<notin> set (map dogId (stored w))"
    and "prediction_failed (ml url newId)"
  shows "\<exists>dog0 w1.
           prisma_dog_create newId now (create_data input) w = (Inr dog0, w1)
         \<and> fst (create ml newId now input w) = Inr dog0
         \<and> breed dog0 = None
         \<and> stored (snd (create ml newId now input w)) = stored w @ [dog0]
         \<and> calls (snd (create ml newId now input w)) =
             (if url = [] then calls w @ [DogCreate]
              else calls w @ [DogCreate, PredictBreed url newId])"
proof -
  from create_fresh [OF assms(3), of now "create_data input"]
  obtain dog0 where c: "prisma_dog_create newId now (create_data input) w =
           (Inr dog0, \<lparr>stored = stored w @ [dog0], calls = calls w @ [DogCreate]\<rparr>)"
    and i: "dogId dog0 = newId" and b: "breed dog0 = in_breed (create_data input)"
    by blast
  from b assms(2) have b0: "breed dog0 = None"
    by (simp add: create_data_def)
  from assms(4) have run: "create ml newId now input w =
      (Inr dog0, \<lparr>stored = stored w @ [dog0],
                  calls = (if url = [] then calls w @ [DogCreate]
                           else calls w @ [DogCreate, PredictBreed url newId])\<rparr>)"
    by (auto simp add: create_def c i assms(1,2) truthy_def prediction_failed_def Let_def
        split: sum.splits option.splits)
  from c b0 run show ?thesis
    by simp
qed

theorem create_survives_prediction_failure_witness:
  "in_imageUrl (photo_input None) = Some ''https://example.com/dog.jpg''
   \<and> in_breed (photo_input None) = None
   \<and> ''d1'' \<notin> set (map dogId (stored empty_world))
   \<and> prediction_failed (ml_unavailable ''https://example.com/dog.jpg'' ''d1'')
   \<and> prediction_failed (ml_no_breed ''https://example.com/dog.jpg'' ''d1'')
   \<and> create ml_unavailable ''d1'' 100 (photo_input None) empty_world =
        (Inr (created_dog ''d1'' 100 (photo_input None)),
         \<lparr>stored = [created_dog ''d1'' 100 (photo_input None)],
          calls = [DogCreate, PredictBreed ''https://example.com/dog.jpg'' ''d1'']\<rparr>)
   \<and> create ml_no_breed ''d1'' 100 (photo_input None) empty_world =
        (Inr (created_dog ''d1'' 100 (photo_input None)),
         \<lparr>stored = [created_dog ''d1'' 100 (photo_input None)],
          calls = [DogCreate, PredictBreed ''https://example.com/dog.jpg'' ''d1'']\<rparr>)"
proof -
  let ?url = "''https://example.com/dog.jpg''"
  let ?d = "created_dog ''d1'' 100 (photo_input None)"
  have h: "in_imageUrl (photo_input None) = Some ?url" "in_breed (photo_input None) = None"
    "''d1'' \<notin> set (map dogId (stored empty_world))"
    by (simp_all add: photo_input_def empty_world_def)
  have f1: "prediction_failed (ml_unavailable ?url ''d1'')"
    by (simp add: prediction_failed_def ml_unavailable_def)
  have f2: "prediction_failed (ml_no_breed ?url ''d1'')"
    by (simp add: prediction_failed_def ml_no_breed_def truthy_def)
  have c: "prisma_dog_create ''d1'' 100 (create_data (photo_input None)) empty_world =
             (Inr ?d, \<lparr>stored = [?d], calls = [DogCreate]\<rparr>)"
    by (simp add: prisma_dog_create_def create_data_def photo_input_def empty_world_def
        created_dog_def Let_def)
  have r1: "create ml_unavailable ''d1'' 100 (photo_input None) empty_world =
        (Inr ?d, \<lparr>stored = [?d], calls = [DogCreate, PredictBreed ?url ''d1'']\<rparr>)"
    using create_survives_prediction_failure
            [where ml = ml_unavailable and now = 100, OF h f1] c
    by (auto simp add: empty_world_def prod_eq_iff world.equality)
  have r2: "create ml_no_breed ''d1'' 100 (photo_input None) empty_world =
        (Inr ?d, \<lparr>stored = [?d], calls = [DogCreate, PredictBreed ?url ''d1'']\<rparr>)"
    using create_survives_prediction_failure
            [where ml = ml_no_breed and now = 100, OF h f2] c
    by (auto simp add: empty_world_def prod_eq_iff world.equality)
  from h f1 f2 r1 r2 show ?thesis
    by blast
qed

text \<open>
  C7 (as amended). For every create input in which a non-empty breed is supplied,
  \<open>create\<close> makes the storage creation and no other call. In general the calls that follow
  the creation are none, or one prediction for the image reference and the new
  identifier, followed or not by the update that stores the predicted breed; a prediction
  is attempted only when the image reference is present and non-empty and the breed is
  absent or the empty string, and in that case, once the record is created, it is
  attempted.
\<close>

theorem create_prediction_calls:
  "\<exists>rest.
      calls (snd (create ml newId now input w)) = calls w @ DogCreate # rest
    \<and> (truthy (in_breed input) \<longrightarrow> rest = [])
    \<and> (rest = [] \<or>
         (\<exists>u. in_imageUrl input = Some u \<and> u \<noteq> [] \<and> \<not> truthy (in_breed input)
            \<and> (rest = [PredictBreed u newId]
                 \<or> rest = [PredictBreed u newId, DogUpdate newId])))
    \<and> (newId \<notin> set (map dogId (stored w)) \<and> truthy (in_imageUrl input)
          \<and> \<not> truthy (in_breed input) \<longrightarrow> rest \<noteq> [])"
proof (cases "newId \<in> set (map dogId (stored w))")
  case True
  then have "calls (snd (create ml newId now input w)) = calls w @ DogCreate # []"
    by (simp add: create_duplicate)
  with True show ?thesis
    by blast
next
  case False
  from create_fresh [OF False, of now "create_data input"]
  obtain dog0 where c: "prisma_dog_create newId now (create_data input) w =
           (Inr dog0, \<lparr>stored = stored w @ [dog0], calls = calls w @ [DogCreate]\<rparr>)"
    and i: "dogId dog0 = newId"
    by blast
  show ?thesis
  proof (cases "truthy (in_imageUrl input) \<and> \<not> truthy (in_breed input)")
    case False
    then have "calls (snd (create ml newId now input w)) = calls w @ DogCreate # []"
      by (auto simp add: create_def c truthy_def split: option.splits)
    with False show ?thesis
      by blast
  next
    case True
    then obtain u where u: "in_imageUrl input = Some u" "u \<noteq> []"
      by (auto simp add: truthy_def split: option.splits)
    have "calls (snd (create ml newId now input w)) =
            calls w @ DogCreate # [PredictBreed u newId]
        \<or> calls (snd (create ml newId now input w)) =
            calls w @ DogCreate # [PredictBreed u newId, DogUpdate newId]"
      using True
      by (auto simp add: create_def c i u prisma_dog_update_def Let_def
          split: sum.splits option.splits prod.splits)
    with True u show ?thesis
      by blast
  qed
qed

theorem create_prediction_calls_witness:
  "truthy (in_breed (photo_input (Some ''Labrador'')))
   \<and> calls (snd (create ml_labrador ''d1'' 100 (photo_input (Some ''Labrador'')) empty_world)) =
        [DogCreate]
   \<and> calls (snd (create ml_labrador ''d1'' 100 (photo_input None) empty_world)) =
        [DogCreate, PredictBreed ''https://example.com/dog.jpg'' ''d1'', DogUpdate ''d1'']"
proof -
  have t: "truthy (in_breed (photo_input (Some ''Labrador'')))"
    by (simp add: truthy_def photo_input_def)
  from create_prediction_calls
         [of ml_labrador "''d1''" 100 "photo_input (Some ''Labrador'')" empty_world] t
  have a: "calls (snd (create ml_labrador ''d1'' 100 (photo_input (Some ''Labrador''))
             empty_world)) = [DogCreate]"
    by (auto simp add: empty_world_def)
  have b: "calls (snd (create ml_labrador ''d1'' 100 (photo_input None) empty_world)) =
        [DogCreate, PredictBreed ''https://example.com/dog.jpg'' ''d1'', DogUpdate ''d1'']"
    by (simp add: create_def prisma_dog_create_def create_data_def photo_input_def
        empty_world_def truthy_def ml_labrador_def prisma_dog_update_def
        prisma_dog_findUnique_def breed_patch_def apply_patch_def Let_def)
  from t a b show ?thesis by blast
qed

text \<open>
  C7 as stated fails when the breed supplied is the empty string: the guard tests the
  breed for truthiness, the prediction service is called, and the predicted breed
  replaces the supplied one.
\<close>

theorem create_empty_breed_counterexample:
  "in_breed (photo_input (Some [])) = Some []
   \<and> calls (snd (create ml_labrador ''d1'' 100 (photo_input (Some [])) empty_world)) =
        [DogCreate, PredictBreed ''https://example.com/dog.jpg'' ''d1'', DogUpdate ''d1'']
   \<and> breed (created_dog ''d1'' 100 (photo_input (Some []))) = Some []
   \<and> fst (create ml_labrador ''d1'' 100 (photo_input (Some [])) empty_world) =
        Inr ((created_dog ''d1'' 100 (photo_input (Some [])))\<lparr>breed := Some ''Labrador''\<rparr>)"
  by (simp add: create_def prisma_dog_create_def create_data_def photo_input_def
      empty_world_def truthy_def ml_labrador_def prisma_dog_update_def
      prisma_dog_findUnique_def breed_patch_def apply_patch_def created_dog_def Let_def)

end
